theory Spec2Isabelle
  imports Complex_Main
begin

section \<open>Renewal reminders of the subscription tracker\<close>

text \<open>
  A shallow embedding of the backend's reminder code: the workflow handler
  \<^verbatim>\<open>sendReminders\<close>, the trigger \<^verbatim>\<open>scheduleReminderWorkflow\<close>, the sweep
  \<^verbatim>\<open>processAllSubscriptionReminders\<close> (all in workflow.controllers.js) and the
  controller \<^verbatim>\<open>createSubscription\<close>.

  The handler is modelled in program order: each \<^verbatim>\<open>context.run\<close> executes its
  action once, each \<^verbatim>\<open>context.sleep\<close> suspends the run for the given number of
  seconds. What the code reads from outside (the clock's zone, the storage, the mail
  transport, the workflow service, the configuration) is a parameter, the record
  \<open>env\<close>; what it does to the outside is recorded in the record \<open>world\<close>.
\<close>

subsection \<open>Data\<close>

text \<open>A point in time: milliseconds since the epoch, as a JavaScript Date holds it.\<close>

type_synonym instant = int

text \<open>A thrown JavaScript error: its \<^verbatim>\<open>message\<close> and its optional \<^verbatim>\<open>statusCode\<close>.\<close>

datatype js_error = JsError (err_message: string) (err_statusCode: "int option")

text \<open>The schema's enum \<^verbatim>\<open>["active", "inactive", "canceled"]\<close>.\<close>

datatype status = Active | Inactive | Canceled

record user =
  email :: string
  username :: string

text \<open>
  A subscription document as \<^verbatim>\<open>findById(...).populate("user", "email username")\<close>
  returns it: \<open>user\<close> is the populated owner, \<open>None\<close> when the referenced user
  document does not exist (Mongoose populates it with null).
\<close>

record subscription =
  sub_id :: string
  name :: string
  price :: rat
  currency :: string
  status :: status
  renewalDate :: instant
  user :: "user option"

text \<open>
  The arguments of one call of \<^verbatim>\<open>sendRenewalReminder\<close>. The rendering of the
  subject, text and HTML from them is not modelled.
\<close>

record reminder =
  rem_email :: string
  rem_username :: string
  rem_subscriptionName :: string
  rem_renewalDate :: instant
  rem_price :: rat
  rem_currency :: string
  rem_daysUntilRenewal :: int

text \<open>
  What a run of the handler did, in order: a storage read inside the named step, a
  reminder handed to the mail transport inside the named step, a sleep of so many
  seconds.
\<close>

datatype event = Fetch string | Send string reminder | Sleep string int

text \<open>
  The environment.
  \<^item> \<open>utcOffset t\<close>: the host's offset from UTC in minutes at instant \<open>t\<close>, what
    \<^verbatim>\<open>dayjs(t).utcOffset()\<close> returns;
  \<^item> \<open>collection t\<close>: the subscription documents in storage at instant \<open>t\<close>;
  \<^item> \<open>storageFault t\<close>: the error a storage query made at \<open>t\<close> throws, if any;
  \<^item> \<open>mailFault t r\<close>: the error \<^verbatim>\<open>transporter.sendMail\<close> throws for reminder
    \<open>r\<close> at \<open>t\<close>, if any;
  \<^item> \<open>triggerFault n i\<close>: the error the \<open>n\<close>-th call of
    \<^verbatim>\<open>upstashWorkflowClient.trigger\<close> throws for subscription id \<open>i\<close>, if any;
  \<^item> \<open>createOutcome b u\<close>: what \<^verbatim>\<open>Subscription.create\<close> does with request body
    \<open>b\<close> for user id \<open>u\<close>: the validation or storage error it throws, or the
    document it has persisted;
  \<^item> \<open>SERVER_URL\<close>: the configured base URL.
\<close>

record env =
  utcOffset :: "instant \<Rightarrow> int"
  collection :: "instant \<Rightarrow> subscription list"
  storageFault :: "instant \<Rightarrow> js_error option"
  mailFault :: "instant \<Rightarrow> reminder \<Rightarrow> js_error option"
  triggerFault :: "nat \<Rightarrow> string \<Rightarrow> js_error option"
  createOutcome :: "(string \<times> string) list \<Rightarrow> string \<Rightarrow> js_error + subscription"
  SERVER_URL :: string

text \<open>
  The world.
  \<^item> \<open>now\<close>: the clock, what \<^verbatim>\<open>dayjs()\<close> reads;
  \<^item> \<open>trace\<close>: the events of the handler, oldest first;
  \<^item> \<open>triggered\<close>: the workflow runs requested from the workflow service, oldest
    first, each as the callback URL and the subscription id of its payload; the code
    passes no run id, so every accepted request is a run of its own;
  \<^item> \<open>attempts\<close>: the number of calls of \<^verbatim>\<open>upstashWorkflowClient.trigger\<close> so far;
  \<^item> \<open>created\<close>: the documents \<^verbatim>\<open>Subscription.create\<close> has persisted;
  \<^item> \<open>errlog\<close>: the calls of \<^verbatim>\<open>console.error\<close>, oldest first, each as its
    first argument and the message of the error given second; \<^verbatim>\<open>console.log\<close> is not
    modelled.
\<close>

record world =
  now :: instant
  trace :: "event list"
  triggered :: "(string \<times> string) list"
  attempts :: nat
  created :: "subscription list"
  errlog :: "(string \<times> string) list"

text \<open>The object a run of the handler returns.\<close>

datatype wf_result =
  WfResult (success: bool) (message: string) (daysUntilRenewal: "int option")
    (scheduledIn: "string option")

subsection \<open>Date arithmetic (dayjs)\<close>

definition MILLISECONDS_A_DAY :: int where
  "MILLISECONDS_A_DAY = 86400000"

definition MILLISECONDS_A_MINUTE :: int where
  "MILLISECONDS_A_MINUTE = 60000"

text \<open>
  dayjs's \<^verbatim>\<open>absFloor\<close> of the quotient \<open>n / d\<close> (for \<open>0 < d\<close>): rounding toward
  zero. The quotient is taken exactly.
\<close>

definition absFloor :: "int \<Rightarrow> int \<Rightarrow> int" where
  "absFloor n d = (if n < 0 then - ((- n) div d) else n div d)"

text \<open>
  \<^verbatim>\<open>this.diff(that, "day")\<close>: dayjs subtracts the difference of the two local UTC
  offsets from the difference of the instants, divides by the milliseconds of a day
  and rounds toward zero.
\<close>

definition diff_day :: "env \<Rightarrow> instant \<Rightarrow> instant \<Rightarrow> int" where
  "diff_day e this that =
     (let zoneDelta = (utcOffset e that - utcOffset e this) * MILLISECONDS_A_MINUTE
      in absFloor (this - that - zoneDelta) MILLISECONDS_A_DAY)"

text \<open>\<^verbatim>\<open>this.isBefore(that)\<close> with no unit: the instants are compared.\<close>

definition isBefore :: "instant \<Rightarrow> instant \<Rightarrow> bool" where
  "isBefore this that = (this < that)"

text \<open>
  The card of the frontend computes its own day count (SubscriptionCard.jsx,
  \<^verbatim>\<open>getDaysUntilRenewal\<close>): \<^verbatim>\<open>Math.ceil(diffTime / (1000 * 60 * 60 * 24))\<close>.
\<close>

definition getDaysUntilRenewal :: "instant \<Rightarrow> instant \<Rightarrow> int" where
  "getDaysUntilRenewal renewal today =
     (let diffTime = renewal - today in - ((- diffTime) div (1000 * 60 * 60 * 24)))"

text \<open>JavaScript's rendering of an integer inside a template literal.\<close>

definition digit_char :: "nat \<Rightarrow> char" where
  "digit_char k = ''0123456789'' ! k"

fun render_nat :: "nat \<Rightarrow> string" where
  "render_nat n =
     (if n < 10 then [digit_char n] else render_nat (n div 10) @ [digit_char (n mod 10)])"

declare render_nat.simps [simp del]

definition render_int :: "int \<Rightarrow> string" where
  "render_int k = (if k < 0 then CHR ''-'' # render_nat (nat (- k)) else render_nat (nat k))"

text \<open>
  \<^verbatim>\<open>dayjs(t).add(n, "day")\<close>: a calendar addition that keeps the local wall-clock
  time, so the instant moves by \<open>n\<close> days less the change of the UTC offset (the
  offset in force \<open>n\<close> days later is taken for the result's).
\<close>

definition add_day :: "env \<Rightarrow> instant \<Rightarrow> int \<Rightarrow> instant" where
  "add_day e t n =
     (let r = t + n * MILLISECONDS_A_DAY
      in r + (utcOffset e t - utcOffset e r) * MILLISECONDS_A_MINUTE)"

subsection \<open>The workflow handler\<close>

definition REMINDER_DAYS :: "int list" where
  "REMINDER_DAYS = [7, 3, 1]"

text \<open>\<^verbatim>\<open>Subscription.findById(id).populate(...)\<close> at instant \<open>t\<close>.\<close>

definition findById :: "env \<Rightarrow> instant \<Rightarrow> string \<Rightarrow> js_error + subscription option" where
  "findById e t i =
     (case storageFault e t of
        Some err \<Rightarrow> Inl err
      | None \<Rightarrow> Inr (find (\<lambda>s. sub_id s = i) (collection e t)))"

text \<open>A \<^verbatim>\<open>context.run\<close> step whose action is the storage read.\<close>

definition run_fetch ::
  "string \<Rightarrow> env \<Rightarrow> string \<Rightarrow> world \<Rightarrow> (js_error + subscription option) \<times> world" where
  "run_fetch step e i w =
     (case findById e (now w) i of
        Inl err \<Rightarrow> (Inl err, w)
      | Inr r \<Rightarrow> (Inr r, w\<lparr>trace := trace w @ [Fetch step]\<rparr>))"

definition fetchSubscriptionById ::
  "env \<Rightarrow> string \<Rightarrow> world \<Rightarrow> (js_error + subscription option) \<times> world" where
  "fetchSubscriptionById e i w = run_fetch ''get-subscription'' e i w"

text \<open>
  The argument object the handler builds for \<^verbatim>\<open>sendRenewalReminder\<close>: reading
  \<^verbatim>\<open>subscription.user.email\<close> of a null user throws a TypeError.
\<close>

definition reminderArgs :: "subscription \<Rightarrow> int \<Rightarrow> js_error + reminder" where
  "reminderArgs s d =
     (case user s of
        None \<Rightarrow> Inl (JsError ''Cannot read properties of null (reading 'email')'' None)
      | Some u \<Rightarrow>
          Inr \<lparr>rem_email = email u, rem_username = username u,
               rem_subscriptionName = name s, rem_renewalDate = renewalDate s,
               rem_price = price s, rem_currency = currency s,
               rem_daysUntilRenewal = d\<rparr>)"

text \<open>
  \<^verbatim>\<open>sendRenewalReminder\<close> through \<^verbatim>\<open>sendEmail\<close>: the transport's error is
  thrown again, otherwise the reminder has been sent.
\<close>

definition sendRenewalReminder ::
  "string \<Rightarrow> env \<Rightarrow> reminder \<Rightarrow> world \<Rightarrow> (js_error + unit) \<times> world" where
  "sendRenewalReminder step e r w =
     (case mailFault e (now w) r of
        Some err \<Rightarrow> (Inl err, w)
      | None \<Rightarrow> (Inr (), w\<lparr>trace := trace w @ [Send step r]\<rparr>))"

text \<open>A \<^verbatim>\<open>context.run\<close> step whose action sends a reminder.\<close>

definition run_send ::
  "string \<Rightarrow> env \<Rightarrow> subscription \<Rightarrow> int \<Rightarrow> world \<Rightarrow> (js_error + unit) \<times> world" where
  "run_send step e s d w =
     (case reminderArgs s d of
        Inl err \<Rightarrow> (Inl err, w)
      | Inr r \<Rightarrow> sendRenewalReminder step e r w)"

text \<open>\<^verbatim>\<open>context.sleep(name, seconds)\<close>: the run resumes that many seconds later.\<close>

definition context_sleep :: "string \<Rightarrow> int \<Rightarrow> world \<Rightarrow> world" where
  "context_sleep step seconds w =
     w\<lparr>now := now w + seconds * 1000, trace := trace w @ [Sleep step seconds]\<rparr>"

definition sendReminders ::
  "env \<Rightarrow> string \<Rightarrow> world \<Rightarrow> (js_error + wf_result) \<times> world" where
  "sendReminders e subscriptionId w =
     (case fetchSubscriptionById e subscriptionId w of
        (Inl err, w1) \<Rightarrow> (Inl err, w1)
      | (Inr None, w1) \<Rightarrow>
          (Inr (WfResult False ''Subscription not found'' None None), w1)
      | (Inr (Some subscription), w1) \<Rightarrow>
          if status subscription \<noteq> Active then
            (Inr (WfResult False ''Subscription is not active'' None None), w1)
          else if isBefore (renewalDate subscription) (now w1) then
            (Inr (WfResult False ''Renewal date has passed'' None None), w1)
          else
            let d = diff_day e (renewalDate subscription) (now w1) in
            if d \<le> REMINDER_DAYS ! 0 then
              (case run_send ''send-reminder-email'' e subscription d w1 of
                 (Inl err, w2) \<Rightarrow> (Inl err, w2)
               | (Inr _, w2) \<Rightarrow>
                   let sent = WfResult True
                         (''Reminder sent for subscription '' @ subscriptionId) (Some d) None
                   in
                   if d > 1 then
                     (case find (\<lambda>day. day < d) REMINDER_DAYS of
                        None \<Rightarrow> (Inr sent, w2)
                      | Some nextReminderDay \<Rightarrow>
                          if nextReminderDay \<noteq> 0 then
                            let daysToWait = d - nextReminderDay;
                                w3 = context_sleep ''wait-for-next-reminder''
                                       (daysToWait * 24 * 60 * 60) w2
                            in (case run_send ''send-next-reminder-email'' e subscription
                                       nextReminderDay w3 of
                                  (Inl err, w4) \<Rightarrow> (Inl err, w4)
                                | (Inr _, w4) \<Rightarrow> (Inr sent, w4))
                          else (Inr sent, w2))
                   else (Inr sent, w2))
            else
              let daysToWait = d - REMINDER_DAYS ! 0;
                  w2 = context_sleep ''wait-until-reminder-window''
                         (daysToWait * 24 * 60 * 60) w1
              in (case run_fetch ''re-fetch-subscription'' e subscriptionId w2 of
                    (Inl err, w3) \<Rightarrow> (Inl err, w3)
                  | (Inr updatedSubscription, w3) \<Rightarrow>
                      let scheduled = WfResult True
                            (''Reminder scheduled for subscription '' @ subscriptionId) None
                            (Some (render_int daysToWait @ '' days''))
                      in (case updatedSubscription of
                            None \<Rightarrow> (Inr scheduled, w3)
                          | Some u \<Rightarrow>
                              if status u = Active then
                                (case run_send ''send-first-reminder-email'' e u
                                        (REMINDER_DAYS ! 0) w3 of
                                   (Inl err, w4) \<Rightarrow> (Inl err, w4)
                                 | (Inr _, w4) \<Rightarrow> (Inr scheduled, w4))
                              else (Inr scheduled, w3))))"

text \<open>The reminders a trace holds, in the order they were sent.\<close>

fun sent_of :: "event \<Rightarrow> reminder list" where
  "sent_of (Send _ r) = [r]"
| "sent_of _ = []"

definition outbox :: "world \<Rightarrow> reminder list" where
  "outbox w = concat (map sent_of (trace w))"

text \<open>The sleeps a trace holds, in order.\<close>

fun sleep_of :: "event \<Rightarrow> int list" where
  "sleep_of (Sleep _ n) = [n]"
| "sleep_of _ = []"

definition sleeps :: "world \<Rightarrow> int list" where
  "sleeps w = concat (map sleep_of (trace w))"

subsection \<open>Triggering runs\<close>

text \<open>
  \<^verbatim>\<open>scheduleReminderWorkflow\<close>: one call of \<^verbatim>\<open>upstashWorkflowClient.trigger\<close>
  with the callback URL and the subscription id; its error is logged and thrown again.
\<close>

definition scheduleReminderWorkflow ::
  "env \<Rightarrow> string \<Rightarrow> world \<Rightarrow> (js_error + bool \<times> string) \<times> world" where
  "scheduleReminderWorkflow e subscriptionId w =
     (let workflowUrl = SERVER_URL e @ ''/api/v1/workflow/send-reminders'';
          w1 = w\<lparr>attempts := Suc (attempts w)\<rparr>
      in case triggerFault e (attempts w) subscriptionId of
           None \<Rightarrow>
             (Inr (True, ''Reminder workflow scheduled''),
              w1\<lparr>triggered := triggered w1 @ [(workflowUrl, subscriptionId)]\<rparr>)
         | Some err \<Rightarrow>
             (Inl err,
              w1\<lparr>errlog := errlog w1 @
                 [(''Failed to trigger workflow for subscription '' @ subscriptionId @ '':'',
                   err_message err)]\<rparr>))"

subsection \<open>The sweep\<close>

text \<open>One element of the sweep's \<^verbatim>\<open>results\<close>.\<close>

datatype result_entry =
  ResultEntry (subscriptionId: string) (entry_status: string) (entry_error: "string option")

text \<open>The JSON bodies the controllers send.\<close>

datatype json_body =
    SweepBody bool string "result_entry list"
  | DataBody bool subscription
  | ErrorBody bool string

text \<open>
  What a controller did with the request: \<^verbatim>\<open>res.status(c).json(b)\<close>, or
  \<^verbatim>\<open>next(error)\<close>.
\<close>

datatype http_outcome = Responded int json_body | Next js_error

text \<open>
  The query of the sweep at instant \<open>t\<close>: the active documents whose renewal date
  lies between \<open>lo\<close> and \<open>hi\<close>, both included.
\<close>

definition find_active_between ::
  "env \<Rightarrow> instant \<Rightarrow> instant \<Rightarrow> instant \<Rightarrow> js_error + subscription list" where
  "find_active_between e t lo hi =
     (case storageFault e t of
        Some err \<Rightarrow> Inl err
      | None \<Rightarrow>
          Inr (filter (\<lambda>s. status s = Active \<and> lo \<le> renewalDate s \<and> renewalDate s \<le> hi)
                 (collection e t)))"

text \<open>The \<^verbatim>\<open>for ... of\<close> loop of the sweep, with its \<^verbatim>\<open>results\<close> array.\<close>

fun schedule_each ::
  "env \<Rightarrow> subscription list \<Rightarrow> result_entry list \<Rightarrow> world \<Rightarrow> result_entry list \<times> world" where
  "schedule_each e [] results w = (results, w)"
| "schedule_each e (s # rest) results w =
     (case scheduleReminderWorkflow e (sub_id s) w of
        (Inr _, w1) \<Rightarrow>
          schedule_each e rest (results @ [ResultEntry (sub_id s) ''scheduled'' None]) w1
      | (Inl err, w1) \<Rightarrow>
          schedule_each e rest
            (results @ [ResultEntry (sub_id s) ''failed'' (Some (err_message err))]) w1)"

definition processAllSubscriptionReminders :: "env \<Rightarrow> world \<Rightarrow> http_outcome \<times> world" where
  "processAllSubscriptionReminders e w =
     (let today = now w;
          reminderWindowEnd = add_day e today (REMINDER_DAYS ! 0)
      in case find_active_between e today today reminderWindowEnd of
           Inl err \<Rightarrow>
             (Next err,
              w\<lparr>errlog := errlog w @
                 [(''Error processing subscription reminders:'', err_message err)]\<rparr>)
         | Inr subscriptions \<Rightarrow>
             (case schedule_each e subscriptions [] w of
                (results, w1) \<Rightarrow>
                  (Responded 200
                     (SweepBody True
                        (''Processed '' @ render_nat (length subscriptions) @
                         '' subscriptions'')
                        results),
                   w1)))"

subsection \<open>Creating a subscription\<close>

text \<open>
  The request: its JSON body as fields and values, and \<^verbatim>\<open>req.user\<close> as the auth
  middleware has set it (\<open>None\<close>: not set; \<open>Some None\<close>: a user with no
  \<^verbatim>\<open>_id\<close>).
\<close>

record request =
  body :: "(string \<times> string) list"
  req_user :: "string option option"

definition createSubscription :: "env \<Rightarrow> request \<Rightarrow> world \<Rightarrow> http_outcome \<times> world" where
  "createSubscription e req w =
     (case req_user req of
        None \<Rightarrow> (Responded 401 (ErrorBody False ''User not authenticated''), w)
      | Some None \<Rightarrow> (Responded 401 (ErrorBody False ''User not authenticated''), w)
      | Some (Some uid) \<Rightarrow>
          (case createOutcome e (body req) uid of
             Inl error \<Rightarrow>
               (Responded
                  (case err_statusCode error of
                     None \<Rightarrow> 500
                   | Some c \<Rightarrow> if c = 0 then 500 else c)
                  (ErrorBody False
                     (if err_message error = [] then ''Failed to create subscription''
                      else err_message error)),
                w\<lparr>errlog := errlog w @
                   [(''Create Subscription Error:'', err_message error)]\<rparr>)
           | Inr subscription \<Rightarrow>
               let w1 = w\<lparr>created := created w @ [subscription]\<rparr>;
                   w3 = (case scheduleReminderWorkflow e (sub_id subscription) w1 of
                           (Inr _, w2) \<Rightarrow> w2
                         | (Inl workflowError, w2) \<Rightarrow>
                             w2\<lparr>errlog := errlog w2 @
                                [(''Failed to schedule reminder workflow:'',
                                  err_message workflowError)]\<rparr>)
               in (Responded 201 (DataBody True subscription), w3)))"

subsection \<open>Concrete inputs\<close>

text \<open>
  A user, two of her subscriptions with a given renewal date and status, an
  environment in which nothing fails (the host runs in UTC) over a given storage, and
  an initial world at instant 0.
\<close>

definition ann :: user where
  "ann = \<lparr>email = ''ann@example.org'', username = ''ann''\<rparr>"

definition netflix :: "instant \<Rightarrow> status \<Rightarrow> subscription" where
  "netflix r st =
     \<lparr>sub_id = ''s1'', name = ''Netflix'', price = 1599 / 100, currency = ''USD'',
      status = st, renewalDate = r, user = Some ann\<rparr>"

definition quiet_env :: "(instant \<Rightarrow> subscription list) \<Rightarrow> env" where
  "quiet_env c =
     \<lparr>utcOffset = (\<lambda>_. 0), collection = c, storageFault = (\<lambda>_. None),
      mailFault = (\<lambda>_ _. None), triggerFault = (\<lambda>_ _. None),
      createOutcome = (\<lambda>_ _. Inl (JsError ''Subscription name is required'' None)),
      SERVER_URL = ''http://localhost:5500''\<rparr>"

definition world0 :: world where
  "world0 = \<lparr>now = 0, trace = [], triggered = [], attempts = 0, created = [], errlog = []\<rparr>"

definition spotify :: "instant \<Rightarrow> status \<Rightarrow> subscription" where
  "spotify r st =
     \<lparr>sub_id = ''s2'', name = ''Spotify'', price = 999 / 100, currency = ''EUR'',
      status = st, renewalDate = r, user = Some ann\<rparr>"

text \<open>
  An environment in which the first call of the workflow service fails, and in which
  \<^verbatim>\<open>Subscription.create\<close> persists the first subscription.
\<close>

definition flaky_env :: "(instant \<Rightarrow> subscription list) \<Rightarrow> env" where
  "flaky_env c =
     (quiet_env c)
       \<lparr>triggerFault := (\<lambda>n _. if n = 0 then Some (JsError ''fetch failed'' None) else None),
        createOutcome := (\<lambda>_ _. Inr (netflix 864000000 Active))\<rparr>"

text \<open>
  Storages: one holding a subscription that renews in 2 days; one holding that and two
  more, which renew in 5 and in 10 days; one whose subscription, renewing in 7 days, is
  canceled after instant 0.
\<close>

definition one_due :: "instant \<Rightarrow> subscription list" where
  "one_due t = [netflix 172800000 Active]"

definition two_due :: "instant \<Rightarrow> subscription list" where
  "two_due t =
     [netflix 172800000 Active, spotify 432000000 Active,
      (spotify 864000000 Active)\<lparr>sub_id := ''s3'', name := ''Hulu''\<rparr>]"


text \<open>A request of a signed-in user.\<close>

definition signed_in :: request where
  "signed_in = \<lparr>body = [(''name'', ''Netflix''), (''frequency'', ''monthly'')],
                req_user = Some (Some ''u1'')\<rparr>"

section \<open>Properties\<close>

subsection \<open>Auxiliary facts\<close>

lemma fetch_simp:
  "findById e (now w) i = Inr r \<Longrightarrow>
   fetchSubscriptionById e i w = (Inr r, w\<lparr>trace := trace w @ [Fetch ''get-subscription'']\<rparr>)"
  by (simp add: fetchSubscriptionById_def run_fetch_def)

lemma seven: "REMINDER_DAYS ! 0 = 7" by (simp add: REMINDER_DAYS_def)

lemma below_offsets_high: "3 < d \<Longrightarrow> d \<le> 7 \<Longrightarrow> {x \<in> set REMINDER_DAYS. x < d} = {3, 1}"
  by (auto simp: REMINDER_DAYS_def)

lemma below_offsets_low: "1 < d \<Longrightarrow> d \<le> 3 \<Longrightarrow> {x \<in> set REMINDER_DAYS. x < d} = {1}"
  by (auto simp: REMINDER_DAYS_def)

lemma nextReminderDay_largest_below:
  assumes "1 < d" and "d \<le> 7"
  shows "find (\<lambda>day. day < d) REMINDER_DAYS = Some (Max {x \<in> set REMINDER_DAYS. x < d})"
proof (cases "3 < d")
  case True
  with assms have "find (\<lambda>day. day < d) REMINDER_DAYS = Some 3"
    by (simp add: REMINDER_DAYS_def)
  with True assms show ?thesis by (simp add: below_offsets_high)
next
  case False
  with assms have "find (\<lambda>day. day < d) REMINDER_DAYS = Some 1"
    by (simp add: REMINDER_DAYS_def)
  with False assms show ?thesis by (simp add: below_offsets_low)
qed

lemma nextReminderDay_pos:
  "1 < d \<Longrightarrow> d \<le> 7 \<Longrightarrow> Max {x \<in> set REMINDER_DAYS. x < d} \<noteq> 0"
  by (cases "3 < d") (simp_all add: below_offsets_high below_offsets_low)

lemma run_send_sleeps: "sleeps (snd (run_send n e s d w)) = sleeps w"
  by (simp add: run_send_def sendRenewalReminder_def sleeps_def split: sum.splits option.splits)

lemma run_fetch_sleeps: "sleeps (snd (run_fetch n e i w)) = sleeps w"
  by (simp add: run_fetch_def sleeps_def split: sum.splits)

lemma context_sleep_sleeps: "sleeps (context_sleep n secs w) = sleeps w @ [secs]"
  by (simp add: context_sleep_def sleeps_def)

lemma run_send_accepted:
  "reminderArgs s d = Inr r \<Longrightarrow> mailFault e (now w) r = None \<Longrightarrow>
   run_send n e s d w = (Inr (), w\<lparr>trace := trace w @ [Send n r]\<rparr>)"
  by (simp add: run_send_def sendRenewalReminder_def)

lemma run_send_outbox:
  "run_send n e s d w = (r, w') \<Longrightarrow> length (outbox w') \<le> Suc (length (outbox w))"
  by (auto simp: run_send_def sendRenewalReminder_def outbox_def split: sum.splits option.splits)

lemma run_fetch_outbox: "run_fetch n e i w = (r, w') \<Longrightarrow> outbox w' = outbox w"
  by (auto simp: run_fetch_def outbox_def split: sum.splits)

lemma context_sleep_outbox: "outbox (context_sleep n secs w) = outbox w"
  by (simp add: context_sleep_def outbox_def)


lemma scheduleReminderWorkflow_now:
  "now (snd (scheduleReminderWorkflow e i w)) = now w"
  by (simp add: scheduleReminderWorkflow_def Let_def split: option.splits)

lemma scheduleReminderWorkflow_result:
  "fst (scheduleReminderWorkflow e i w) =
     (case triggerFault e (attempts w) i of
        None \<Rightarrow> Inr (True, ''Reminder workflow scheduled'')
      | Some err \<Rightarrow> Inl err)"
  by (simp add: scheduleReminderWorkflow_def Let_def split: option.splits)

lemma scheduleReminderWorkflow_accepted:
  "triggerFault e (attempts w) i = None \<Longrightarrow>
   triggered (snd (scheduleReminderWorkflow e i w)) =
     triggered w @ [(SERVER_URL e @ ''/api/v1/workflow/send-reminders'', i)]"
  by (simp add: scheduleReminderWorkflow_def Let_def)


lemma schedule_each_now: "now (snd (schedule_each e subs res w)) = now w"
proof (induction subs arbitrary: res w)
  case Nil
  show ?case by simp
next
  case (Cons s rest)
  obtain r w1 where step: "scheduleReminderWorkflow e (sub_id s) w = (r, w1)"
    by (cases "scheduleReminderWorkflow e (sub_id s) w") auto
  have "now w1 = now w"
    using scheduleReminderWorkflow_now [of e "sub_id s" w] step by simp
  with step Cons.IH show ?case by (cases r) simp_all
qed

lemma schedule_each_triggered:
  assumes "\<And>n i. triggerFault e n i = None"
  shows "triggered (snd (schedule_each e subs res w)) =
           triggered w @ map (\<lambda>s. (SERVER_URL e @ ''/api/v1/workflow/send-reminders'', sub_id s)) subs"
proof (induction subs arbitrary: res w)
  case Nil
  show ?case by simp
next
  case (Cons s rest)
  obtain r w1 where step: "scheduleReminderWorkflow e (sub_id s) w = (r, w1)"
    by (cases "scheduleReminderWorkflow e (sub_id s) w") auto
  have t: "triggered w1 = triggered w @ [(SERVER_URL e @ ''/api/v1/workflow/send-reminders'', sub_id s)]"
    using scheduleReminderWorkflow_accepted [of e w "sub_id s"] assms step by simp
  have "r = Inr (True, ''Reminder workflow scheduled'')"
    using scheduleReminderWorkflow_result [of e "sub_id s" w] assms step by simp
  with step t Cons.IH show ?case by simp
qed

lemma scheduleReminderWorkflow_created:
  "created (snd (scheduleReminderWorkflow e i w)) = created w"
  by (simp add: scheduleReminderWorkflow_def Let_def split: option.splits)

lemma scheduleReminderWorkflow_rejected:
  "triggerFault e (attempts w) i = Some err \<Longrightarrow>
   scheduleReminderWorkflow e i w =
     (Inl err,
      w\<lparr>attempts := Suc (attempts w),
        errlog := errlog w @
          [(''Failed to trigger workflow for subscription '' @ i @ '':'', err_message err)]\<rparr>)"
  by (simp add: scheduleReminderWorkflow_def Let_def)

lemma processAll_found:
  assumes "find_active_between e (now w) (now w) (add_day e (now w) 7) = Inr due"
  shows "processAllSubscriptionReminders e w =
           (Responded 200
              (SweepBody True (''Processed '' @ render_nat (length due) @ '' subscriptions'')
                 (fst (schedule_each e due [] w))),
            snd (schedule_each e due [] w))"
  using assms by (simp add: processAllSubscriptionReminders_def seven split: prod.splits)




lemma quiet_due_found:
  "find_active_between (quiet_env two_due) (now world0) (now world0)
     (add_day (quiet_env two_due) (now world0) 7)
   = Inr [netflix 172800000 Active, spotify 432000000 Active]"
  by (simp add: find_active_between_def quiet_env_def two_due_def world0_def
      add_day_def MILLISECONDS_A_DAY_def netflix_def spotify_def)



lemmas sweep_defs =
  processAllSubscriptionReminders_def find_active_between_def add_day_def
  MILLISECONDS_A_DAY_def MILLISECONDS_A_MINUTE_def REMINDER_DAYS_def
  scheduleReminderWorkflow_def

subsection \<open>Date arithmetic\<close>




text \<open>The ceiling is what the frontend's card computes.\<close>

lemma getDaysUntilRenewal_ceiling:
  "getDaysUntilRenewal renewal today = \<lceil>real_of_int (renewal - today) / 86400000\<rceil>"
proof -
  have "\<lceil>real_of_int (renewal - today) / real_of_int 86400000\<rceil> = - (- (renewal - today) div 86400000)"
    by (rule ceiling_divide_eq_div)
  then show ?thesis
    by (simp add: getDaysUntilRenewal_def)
qed

subsection \<open>Skipped runs\<close>

text \<open>
  Claim C7. When the subscription is absent from storage, or its status is not active,
  the run returns normally with the unsuccessful result that names the reason: it has
  read the storage once, sent no reminder, never slept, and thrown no error.
\<close>

theorem sendReminders_skips_absent_or_inactive:
  assumes "findById e (now w) i = Inr r"
    and "\<And>s. r = Some s \<Longrightarrow> status s \<noteq> Active"
  shows "sendReminders e i w =
           (Inr (WfResult False
                   (if r = None then ''Subscription not found''
                    else ''Subscription is not active'') None None),
            w\<lparr>trace := trace w @ [Fetch ''get-subscription'']\<rparr>)
         \<and> outbox (snd (sendReminders e i w)) = outbox w
         \<and> sleeps (snd (sendReminders e i w)) = sleeps w"
proof (cases r)
  case None
  with assms(1) show ?thesis
    by (simp add: sendReminders_def fetch_simp outbox_def sleeps_def)
next
  case (Some s)
  with assms(2) have "status s \<noteq> Active" by simp
  with Some assms(1) show ?thesis
    by (simp add: sendReminders_def fetch_simp outbox_def sleeps_def)
qed

text \<open>An empty storage, and a canceled subscription.\<close>

theorem sendReminders_skips_absent_or_inactive_witness:
  "sendReminders (quiet_env (\<lambda>_. [])) ''s1'' world0 =
     (Inr (WfResult False ''Subscription not found'' None None),
      world0\<lparr>trace := [Fetch ''get-subscription'']\<rparr>)
   \<and> sendReminders (quiet_env (\<lambda>_. [netflix 864000000 Canceled])) ''s1'' world0 =
     (Inr (WfResult False ''Subscription is not active'' None None),
      world0\<lparr>trace := [Fetch ''get-subscription'']\<rparr>)"
proof -
  have a: "findById (quiet_env (\<lambda>_. [])) (now world0) ''s1'' = Inr None"
    by (simp add: findById_def quiet_env_def)
  have b: "findById (quiet_env (\<lambda>_. [netflix 864000000 Canceled])) (now world0) ''s1''
             = Inr (Some (netflix 864000000 Canceled))"
    by (simp add: findById_def quiet_env_def netflix_def)
  have c: "\<And>s. Some (netflix 864000000 Canceled) = Some s \<Longrightarrow> status s \<noteq> Active"
    by (auto simp: netflix_def)
  show ?thesis
    using sendReminders_skips_absent_or_inactive [OF a]
      sendReminders_skips_absent_or_inactive [OF b c]
    by (simp add: world0_def)
qed




subsection \<open>Sleeps\<close>

text \<open>
  Claim C8. Let \<open>d\<close> be the day count of an active subscription that is not past.
  If \<open>d\<close> exceeds 7, the run sleeps exactly once, for \<open>d - 7\<close> days. If
  \<open>1 < d \<le> 7\<close> and the reminder due now has been sent, the run sleeps exactly once,
  for \<open>d\<close> minus the largest offset strictly below \<open>d\<close> days. If \<open>d \<le> 1\<close> the
  run does not sleep. Sleeps are in seconds.
\<close>

theorem sleep_is_gap_to_next_offset:
  assumes fetched: "findById e (now w) i = Inr (Some s)"
    and active: "status s = Active"
    and future: "now w \<le> renewalDate s"
    and d: "d = diff_day e (renewalDate s) (now w)"
  shows "(7 < d \<longrightarrow> sleeps (snd (sendReminders e i w)) = sleeps w @ [(d - 7) * 24 * 60 * 60])
       \<and> (1 < d \<and> d \<le> 7 \<and> reminderArgs s d = Inr r \<and> mailFault e (now w) r = None
          \<longrightarrow> sleeps (snd (sendReminders e i w)) =
                sleeps w @ [(d - Max {x \<in> set REMINDER_DAYS. x < d}) * 24 * 60 * 60])
       \<and> (d \<le> 1 \<longrightarrow> sleeps (snd (sendReminders e i w)) = sleeps w)"
proof (intro conjI impI)
  let ?w1 = "w\<lparr>trace := trace w @ [Fetch ''get-subscription'']\<rparr>"
  have w1: "sleeps ?w1 = sleeps w" by (simp add: sleeps_def)
  have seven: "REMINDER_DAYS ! 0 = 7" by (simp add: REMINDER_DAYS_def)
  {
    assume big: "7 < d"
    let ?w2 = "context_sleep ''wait-until-reminder-window'' ((d - 7) * 24 * 60 * 60) ?w1"
    obtain r3 w3 where f: "run_fetch ''re-fetch-subscription'' e i ?w2 = (r3, w3)"
      by (cases "run_fetch ''re-fetch-subscription'' e i ?w2") auto
    have s3: "sleeps w3 = sleeps ?w2"
      using run_fetch_sleeps [of "''re-fetch-subscription''" e i ?w2] f by simp
    have "sleeps (snd (sendReminders e i w)) = sleeps w3"
    proof (cases r3)
      case (Inl err)
      with fetched active future d seven big f show ?thesis
        by (simp add: sendReminders_def fetch_simp isBefore_def)
    next
      case (Inr u)
      show ?thesis
      proof (cases "\<exists>s'. u = Some s' \<and> status s' = Active")
        case True
        then obtain s' where u: "u = Some s'" "status s' = Active" by auto
        obtain r4 w4 where g: "run_send ''send-first-reminder-email'' e s' 7 w3 = (r4, w4)"
          by (cases "run_send ''send-first-reminder-email'' e s' 7 w3") auto
        have "sleeps w4 = sleeps w3"
          using run_send_sleeps [of "''send-first-reminder-email''" e s' 7 w3] g by simp
        with fetched active future d seven big f Inr u g show ?thesis
          by (cases r4) (simp_all add: sendReminders_def fetch_simp isBefore_def)
      next
        case False
        with fetched active future d seven big f Inr show ?thesis
          by (cases u) (simp_all add: sendReminders_def fetch_simp isBefore_def)
      qed
    qed
    then show "sleeps (snd (sendReminders e i w)) = sleeps w @ [(d - 7) * 24 * 60 * 60]"
      by (simp add: s3 context_sleep_sleeps w1)
  }
  {
    assume "d \<le> 1"
    with fetched active future d seven
    show "sleeps (snd (sendReminders e i w)) = sleeps w"
      by (simp add: sendReminders_def fetch_simp isBefore_def Let_def run_send_def
          sendRenewalReminder_def sleeps_def
          split: prod.splits sum.splits option.splits)
  }
  {
    assume a: "1 < d \<and> d \<le> 7 \<and> reminderArgs s d = Inr r \<and> mailFault e (now w) r = None"
    let ?n = "Max {x \<in> set REMINDER_DAYS. x < d}"
    obtain w2 where w2: "run_send ''send-reminder-email'' e s d ?w1 = (Inr (), w2)"
      using a run_send_accepted [of s d r e ?w1] by simp
    have s2: "sleeps w2 = sleeps w"
      using run_send_sleeps [of "''send-reminder-email''" e s d ?w1] w2 w1 by simp
    from a have nx: "find (\<lambda>day. day < d) REMINDER_DAYS = Some ?n" and nz: "?n \<noteq> 0"
      by (simp_all add: nextReminderDay_largest_below nextReminderDay_pos)
    let ?w3 = "context_sleep ''wait-for-next-reminder'' ((d - ?n) * 24 * 60 * 60) w2"
    have "sleeps (snd (sendReminders e i w)) =
            sleeps (snd (run_send ''send-next-reminder-email'' e s ?n ?w3))"
      using fetched active future d seven a w2 nx nz
      by (simp add: sendReminders_def fetch_simp isBefore_def Let_def
          split: prod.splits sum.splits)
    then show "sleeps (snd (sendReminders e i w)) = sleeps w @ [(d - ?n) * 24 * 60 * 60]"
      by (simp add: run_send_sleeps context_sleep_sleeps s2)
  }
qed

text \<open>Ten days out, a sleep of 3 days; five days out, a sleep of 2 days.\<close>

theorem sleep_is_gap_to_next_offset_witness:
  "sleeps (snd (sendReminders (quiet_env (\<lambda>_. [netflix 864000000 Active])) ''s1'' world0))
     = [3 * 24 * 60 * 60]
   \<and> sleeps (snd (sendReminders (quiet_env (\<lambda>_. [netflix 432000000 Active])) ''s1'' world0))
     = [2 * 24 * 60 * 60]"
proof -
  let ?far = "quiet_env (\<lambda>_. [netflix 864000000 Active])"
  let ?near = "quiet_env (\<lambda>_. [netflix 432000000 Active])"
  have far: "findById ?far (now world0) ''s1'' = Inr (Some (netflix 864000000 Active))"
    and near: "findById ?near (now world0) ''s1'' = Inr (Some (netflix 432000000 Active))"
    by (simp_all add: findById_def quiet_env_def netflix_def)
  have d10: "10 = diff_day ?far (renewalDate (netflix 864000000 Active)) (now world0)"
    and d5: "5 = diff_day ?near (renewalDate (netflix 432000000 Active)) (now world0)"
    by (simp_all add: diff_day_def absFloor_def MILLISECONDS_A_DAY_def quiet_env_def
        netflix_def world0_def)
  have args: "reminderArgs (netflix 432000000 Active) 5 =
      Inr \<lparr>rem_email = ''ann@example.org'', rem_username = ''ann'',
           rem_subscriptionName = ''Netflix'', rem_renewalDate = 432000000,
           rem_price = 1599 / 100, rem_currency = ''USD'', rem_daysUntilRenewal = 5\<rparr>"
    by (simp add: reminderArgs_def netflix_def ann_def)
  have below: "Max {x \<in> set REMINDER_DAYS. x < 5} = 3"
    by (simp add: below_offsets_high)
  have "sleeps world0 = []" by (simp add: sleeps_def world0_def)
  then show ?thesis
    using sleep_is_gap_to_next_offset [OF far _ _ d10]
      sleep_is_gap_to_next_offset [OF near _ _ d5, where r = "\<lparr>rem_email = ''ann@example.org'', rem_username = ''ann'',
           rem_subscriptionName = ''Netflix'', rem_renewalDate = 432000000,
           rem_price = 1599 / 100, rem_currency = ''USD'', rem_daysUntilRenewal = 5\<rparr>"]
      args below
    by (simp add: netflix_def world0_def quiet_env_def)
qed

subsection \<open>Checkpoints\<close>


text \<open>
  From any input: a run sends at most two reminders, so none sends all three.
\<close>

lemma sendReminders_at_most_two:
  "length (outbox (snd (sendReminders e i w))) \<le> length (outbox w) + 2"
proof -
  obtain r1 w1 where f: "run_fetch ''get-subscription'' e i w = (r1, w1)"
    by (cases "run_fetch ''get-subscription'' e i w") auto
  have o1: "outbox w1 = outbox w" using run_fetch_outbox [OF f] .
  consider (stop) "snd (sendReminders e i w) = w1"
    | (near) s where "r1 = Inr (Some s)" "status s = Active" "\<not> isBefore (renewalDate s) (now w1)"
        "diff_day e (renewalDate s) (now w1) \<le> 7"
    | (far) s where "r1 = Inr (Some s)" "status s = Active" "\<not> isBefore (renewalDate s) (now w1)"
        "\<not> diff_day e (renewalDate s) (now w1) \<le> 7"
  proof (cases r1)
    case (Inl err)
    with f have "snd (sendReminders e i w) = w1"
      by (simp add: sendReminders_def fetchSubscriptionById_def)
    then show ?thesis by (rule stop)
  next
    case (Inr found)
    show ?thesis
    proof (cases found)
      case None
      with Inr f have "snd (sendReminders e i w) = w1"
        by (simp add: sendReminders_def fetchSubscriptionById_def)
      then show ?thesis by (rule stop)
    next
      case (Some s)
      show ?thesis
      proof (cases "status s = Active \<and> \<not> isBefore (renewalDate s) (now w1)")
        case False
        with Some Inr f have "snd (sendReminders e i w) = w1"
          by (auto simp: sendReminders_def fetchSubscriptionById_def)
        then show ?thesis by (rule stop)
      next
        case True
        with Some Inr show ?thesis
          by (cases "diff_day e (renewalDate s) (now w1) \<le> 7") (auto intro: near far)
      qed
    qed
  qed
  then show ?thesis
  proof cases
    case stop
    with o1 show ?thesis by simp
  next
    case (near s)
    let ?d = "diff_day e (renewalDate s) (now w1)"
    obtain r2 w2 where g: "run_send ''send-reminder-email'' e s ?d w1 = (r2, w2)"
      by (cases "run_send ''send-reminder-email'' e s ?d w1") auto
    have o2: "length (outbox w2) \<le> Suc (length (outbox w))"
      using run_send_outbox [OF g] o1 by simp
    show ?thesis
    proof (cases "\<exists>n. r2 = Inr () \<and> 1 < ?d \<and> find (\<lambda>day. day < ?d) REMINDER_DAYS = Some n \<and> n \<noteq> 0")
      case False
      with near f g have "snd (sendReminders e i w) = w2"
        by (cases r2; cases "find (\<lambda>day. day < ?d) REMINDER_DAYS")
          (auto simp: sendReminders_def fetchSubscriptionById_def seven Let_def)
      with o2 show ?thesis by simp
    next
      case True
      then obtain n where n: "r2 = Inr ()" "1 < ?d"
        "find (\<lambda>day. day < ?d) REMINDER_DAYS = Some n" "n \<noteq> 0" by auto
      let ?w3 = "context_sleep ''wait-for-next-reminder'' ((?d - n) * 24 * 60 * 60) w2"
      obtain r4 w4 where h: "run_send ''send-next-reminder-email'' e s n ?w3 = (r4, w4)"
        by (cases "run_send ''send-next-reminder-email'' e s n ?w3") auto
      have "length (outbox w4) \<le> Suc (length (outbox w2))"
        using run_send_outbox [OF h] by (simp add: context_sleep_outbox)
      moreover from near f g n h have "snd (sendReminders e i w) = w4"
        by (cases r4)
          (simp_all add: sendReminders_def fetchSubscriptionById_def Let_def seven)
      ultimately show ?thesis using o2 by simp
    qed
  next
    case (far s)
    let ?d = "diff_day e (renewalDate s) (now w1)"
    let ?w2 = "context_sleep ''wait-until-reminder-window'' ((?d - 7) * 24 * 60 * 60) w1"
    obtain r3 w3 where g: "run_fetch ''re-fetch-subscription'' e i ?w2 = (r3, w3)"
      by (cases "run_fetch ''re-fetch-subscription'' e i ?w2") auto
    have o3: "outbox w3 = outbox w"
      using run_fetch_outbox [OF g] o1 by (simp add: context_sleep_outbox)
    show ?thesis
    proof (cases "\<exists>u. r3 = Inr (Some u) \<and> status u = Active")
      case False
      with far f g have "snd (sendReminders e i w) = w3"
        by (cases r3)
          (auto simp: sendReminders_def fetchSubscriptionById_def seven Let_def
            split: option.splits)
      with o3 show ?thesis by simp
    next
      case True
      then obtain u where u: "r3 = Inr (Some u)" "status u = Active" by auto
      obtain r4 w4 where h: "run_send ''send-first-reminder-email'' e u 7 w3 = (r4, w4)"
        by (cases "run_send ''send-first-reminder-email'' e u 7 w3") auto
      have "length (outbox w4) \<le> Suc (length (outbox w3))"
        using run_send_outbox [OF h] .
      moreover from far f g u h have "snd (sendReminders e i w) = w4"
        by (cases r4)
          (simp_all add: sendReminders_def fetchSubscriptionById_def seven Let_def)
      ultimately show ?thesis using o3 by simp
    qed
  qed
qed


text \<open>
  The other sleep, the one that waits for the 7-day window, is followed by a second
  read of the storage, and a subscription found absent or not active then gets no
  reminder.
\<close>

lemma window_sleep_refetches:
  assumes fetched: "findById e (now w) i = Inr (Some s)"
    and active: "status s = Active"
    and future: "now w \<le> renewalDate s"
    and far: "7 < diff_day e (renewalDate s) (now w)"
    and woken: "findById e (now w + (diff_day e (renewalDate s) (now w) - 7) * 24 * 60 * 60 * 1000) i = Inr r"
    and gone: "\<And>s'. r = Some s' \<Longrightarrow> status s' \<noteq> Active"
  shows "fst (sendReminders e i w) =
           Inr (WfResult True (''Reminder scheduled for subscription '' @ i) None
                  (Some (render_int (diff_day e (renewalDate s) (now w) - 7) @ '' days'')))
       \<and> trace (snd (sendReminders e i w)) =
           trace w @ [Fetch ''get-subscription'',
                      Sleep ''wait-until-reminder-window''
                        ((diff_day e (renewalDate s) (now w) - 7) * 24 * 60 * 60),
                      Fetch ''re-fetch-subscription'']"
proof (cases r)
  case None
  with fetched active future far woken seven show ?thesis
    by (simp add: sendReminders_def fetch_simp isBefore_def run_fetch_def context_sleep_def Let_def)
next
  case (Some s')
  with gone have "status s' \<noteq> Active" by simp
  with Some fetched active future far woken seven show ?thesis
    by (simp add: sendReminders_def fetch_simp isBefore_def run_fetch_def context_sleep_def Let_def)
qed

subsection \<open>Triggering runs\<close>

text \<open>
  Claim C6, as amended. \<^verbatim>\<open>scheduleReminderWorkflow\<close> makes no check for a run
  that already exists: whenever the workflow service accepts the request, the call
  returns success and one more run is requested for the subscription, whatever runs
  have been requested for it before. It never fails with AlreadyRunning.
\<close>

theorem scheduleReminderWorkflow_starts_a_run_each_time:
  assumes "triggerFault e (attempts w) i = None"
  shows "scheduleReminderWorkflow e i w =
           (Inr (True, ''Reminder workflow scheduled''),
            w\<lparr>attempts := Suc (attempts w),
              triggered := triggered w @ [(SERVER_URL e @ ''/api/v1/workflow/send-reminders'', i)]\<rparr>)
       \<and> length (filter (\<lambda>run. snd run = i) (triggered (snd (scheduleReminderWorkflow e i w)))) =
           Suc (length (filter (\<lambda>run. snd run = i) (triggered w)))"
  using assms by (simp add: scheduleReminderWorkflow_def Let_def)

text \<open>A world in which a run for the subscription has been requested already.\<close>

theorem scheduleReminderWorkflow_starts_a_run_each_time_witness:
  "scheduleReminderWorkflow (quiet_env one_due) ''s1''
     (world0\<lparr>triggered := [(''http://localhost:5500/api/v1/workflow/send-reminders'', ''s1'')]\<rparr>) =
     (Inr (True, ''Reminder workflow scheduled''),
      world0\<lparr>attempts := 1,
        triggered := [(''http://localhost:5500/api/v1/workflow/send-reminders'', ''s1''),
                      (''http://localhost:5500/api/v1/workflow/send-reminders'', ''s1'')]\<rparr>)"
proof -
  let ?w = "world0\<lparr>triggered := [(''http://localhost:5500/api/v1/workflow/send-reminders'', ''s1'')]\<rparr>"
  have "triggerFault (quiet_env one_due) (attempts ?w) ''s1'' = None"
    by (simp add: quiet_env_def)
  from scheduleReminderWorkflow_starts_a_run_each_time [OF this] show ?thesis
    by (simp add: quiet_env_def world0_def)
qed

text \<open>
  Claim C6 as stated fails: two calls in a row for one subscription both return
  success, and two runs have been requested for it.
\<close>

theorem two_runs_for_one_subscription:
  "fst (scheduleReminderWorkflow (quiet_env one_due) ''s1'' world0) =
     Inr (True, ''Reminder workflow scheduled'')
   \<and> fst (scheduleReminderWorkflow (quiet_env one_due) ''s1''
           (snd (scheduleReminderWorkflow (quiet_env one_due) ''s1'' world0))) =
     Inr (True, ''Reminder workflow scheduled'')
   \<and> triggered (snd (scheduleReminderWorkflow (quiet_env one_due) ''s1''
                  (snd (scheduleReminderWorkflow (quiet_env one_due) ''s1'' world0)))) =
     [(''http://localhost:5500/api/v1/workflow/send-reminders'', ''s1''),
      (''http://localhost:5500/api/v1/workflow/send-reminders'', ''s1'')]"
  by (simp add: scheduleReminderWorkflow_def quiet_env_def world0_def)

subsection \<open>The sweep\<close>

text \<open>
  Claim C5, as amended. Every invocation of the sweep requests a run for every due
  subscription (active, renewing between now and 7 days from now), whether or not a run
  has been requested for it before: when the workflow service accepts every request, a
  second sweep right after the first, over the same storage, requests a run for each of
  the same subscriptions again.
\<close>

theorem sweep_triggers_due_again:
  assumes found: "find_active_between e (now w) (now w) (add_day e (now w) 7) = Inr due"
    and accepted: "\<And>n i. triggerFault e n i = None"
  shows "triggered (snd (processAllSubscriptionReminders e w)) =
           triggered w @
           map (\<lambda>s. (SERVER_URL e @ ''/api/v1/workflow/send-reminders'', sub_id s)) due
       \<and> triggered (snd (processAllSubscriptionReminders e
                           (snd (processAllSubscriptionReminders e w)))) =
           triggered (snd (processAllSubscriptionReminders e w)) @
           map (\<lambda>s. (SERVER_URL e @ ''/api/v1/workflow/send-reminders'', sub_id s)) due"
proof -
  let ?w1 = "snd (processAllSubscriptionReminders e w)"
  have w1: "?w1 = snd (schedule_each e due [] w)"
    using processAll_found [OF found] by simp
  then have "now ?w1 = now w" by (simp add: schedule_each_now)
  with found have again: "find_active_between e (now ?w1) (now ?w1) (add_day e (now ?w1) 7) = Inr due"
    by simp
  have first: "triggered ?w1 = triggered w @
      map (\<lambda>s. (SERVER_URL e @ ''/api/v1/workflow/send-reminders'', sub_id s)) due"
    using w1 schedule_each_triggered [of e due "[]" w] accepted by simp
  have "snd (processAllSubscriptionReminders e ?w1) = snd (schedule_each e due [] ?w1)"
    using processAll_found [OF again] by simp
  then have "triggered (snd (processAllSubscriptionReminders e ?w1)) = triggered ?w1 @
      map (\<lambda>s. (SERVER_URL e @ ''/api/v1/workflow/send-reminders'', sub_id s)) due"
    using schedule_each_triggered [of e due "[]" ?w1] accepted by simp
  with first show ?thesis by simp
qed

text \<open>Two due subscriptions: four runs after two sweeps.\<close>

theorem sweep_triggers_due_again_witness:
  "triggered (snd (processAllSubscriptionReminders (quiet_env two_due)
                     (snd (processAllSubscriptionReminders (quiet_env two_due) world0)))) =
     [(''http://localhost:5500/api/v1/workflow/send-reminders'', ''s1''),
      (''http://localhost:5500/api/v1/workflow/send-reminders'', ''s2''),
      (''http://localhost:5500/api/v1/workflow/send-reminders'', ''s1''),
      (''http://localhost:5500/api/v1/workflow/send-reminders'', ''s2'')]"
proof -
  have "\<And>n i. triggerFault (quiet_env two_due) n i = None"
    by (simp add: quiet_env_def)
  from sweep_triggers_due_again [OF quiet_due_found this] show ?thesis
    by (simp add: world0_def quiet_env_def netflix_def spotify_def)
qed

text \<open>
  Claim C5 as stated fails: over an unchanged storage with one due subscription, the
  second sweep requests a second run for it.
\<close>

theorem second_sweep_starts_a_run:
  "triggered (snd (processAllSubscriptionReminders (quiet_env one_due) world0)) =
     [(''http://localhost:5500/api/v1/workflow/send-reminders'', ''s1'')]
   \<and> collection (quiet_env one_due)
        (now (snd (processAllSubscriptionReminders (quiet_env one_due) world0))) =
      collection (quiet_env one_due) (now world0)
   \<and> triggered (snd (processAllSubscriptionReminders (quiet_env one_due)
                       (snd (processAllSubscriptionReminders (quiet_env one_due) world0)))) =
     [(''http://localhost:5500/api/v1/workflow/send-reminders'', ''s1''),
      (''http://localhost:5500/api/v1/workflow/send-reminders'', ''s1'')]"
  by (simp add: sweep_defs quiet_env_def one_due_def world0_def netflix_def)



subsection \<open>Creating a subscription\<close>

text \<open>
  Claim C9. For a request of an authenticated user whose document has been persisted,
  the controller answers 201 with that document and the document stays persisted,
  whatever the scheduling of the workflow does; when the request to the workflow
  service throws, no run is requested, and the error is logged (by the trigger and by
  the controller) and goes no further.
\<close>

theorem createSubscription_survives_trigger_failure:
  assumes user: "req_user req = Some (Some uid)"
    and persisted: "createOutcome e (body req) uid = Inr s"
  shows "fst (createSubscription e req w) = Responded 201 (DataBody True s)
       \<and> created (snd (createSubscription e req w)) = created w @ [s]
       \<and> (\<forall>err. triggerFault e (attempts w) (sub_id s) = Some err \<longrightarrow>
            triggered (snd (createSubscription e req w)) = triggered w
          \<and> errlog (snd (createSubscription e req w)) =
              errlog w @
              [(''Failed to trigger workflow for subscription '' @ sub_id s @ '':'', err_message err),
               (''Failed to schedule reminder workflow:'', err_message err)])"
proof (intro conjI allI impI)
  let ?w1 = "w\<lparr>created := created w @ [s]\<rparr>"
  obtain r w2 where step: "scheduleReminderWorkflow e (sub_id s) ?w1 = (r, w2)"
    by (cases "scheduleReminderWorkflow e (sub_id s) ?w1") auto
  have c2: "created w2 = created w @ [s]"
    using scheduleReminderWorkflow_created [of e "sub_id s" ?w1] step by simp
  show "fst (createSubscription e req w) = Responded 201 (DataBody True s)"
    using user persisted by (simp add: createSubscription_def Let_def)
  show "created (snd (createSubscription e req w)) = created w @ [s]"
    using user persisted step c2 by (cases r) (simp_all add: createSubscription_def)
  fix err
  assume "triggerFault e (attempts w) (sub_id s) = Some err"
  then have rej: "scheduleReminderWorkflow e (sub_id s) ?w1 =
      (Inl err,
       ?w1\<lparr>attempts := Suc (attempts ?w1),
         errlog := errlog ?w1 @
           [(''Failed to trigger workflow for subscription '' @ sub_id s @ '':'', err_message err)]\<rparr>)"
    using scheduleReminderWorkflow_rejected [of e ?w1 "sub_id s" err] by simp
  show "triggered (snd (createSubscription e req w)) = triggered w"
    using user persisted rej by (simp add: createSubscription_def)
  show "errlog (snd (createSubscription e req w)) =
          errlog w @
          [(''Failed to trigger workflow for subscription '' @ sub_id s @ '':'', err_message err),
           (''Failed to schedule reminder workflow:'', err_message err)]"
    using user persisted rej by (simp add: createSubscription_def)
qed

text \<open>A signed-in user, and a workflow service that fails.\<close>

theorem createSubscription_survives_trigger_failure_witness:
  "fst (createSubscription (flaky_env one_due) signed_in world0) =
     Responded 201 (DataBody True (netflix 864000000 Active))
   \<and> created (snd (createSubscription (flaky_env one_due) signed_in world0)) =
     [netflix 864000000 Active]
   \<and> triggered (snd (createSubscription (flaky_env one_due) signed_in world0)) = []
   \<and> errlog (snd (createSubscription (flaky_env one_due) signed_in world0)) =
     [(''Failed to trigger workflow for subscription s1:'', ''fetch failed''),
      (''Failed to schedule reminder workflow:'', ''fetch failed'')]"
proof -
  have u: "req_user signed_in = Some (Some ''u1'')"
    by (simp add: signed_in_def)
  have p: "createOutcome (flaky_env one_due) (body signed_in) ''u1'' = Inr (netflix 864000000 Active)"
    by (simp add: flaky_env_def)
  have f: "triggerFault (flaky_env one_due) (attempts world0) (sub_id (netflix 864000000 Active))
             = Some (JsError ''fetch failed'' None)"
    by (simp add: flaky_env_def world0_def)
  from createSubscription_survives_trigger_failure [OF u p, of world0] f show ?thesis
    by (simp add: world0_def netflix_def)
qed

end
